theory Spec2Isabelle
  imports Complex_Main "HOL-Library.Word"
begin

section \<open>Data model\<close>

text \<open>
  Go's \<open>float64\<close> values are modelled by the real numbers they denote. The aggregator only
  compares prices, halves a sum and converts a size to an integer; NaN is not represented
  (a JSON number is never NaN, and the mid-price of two finite numbers is never NaN).
  A \<open>time.Time\<close> is the number of nanoseconds since Go's zero time, a \<open>time.Duration\<close> and
  a Go \<open>int\<close> are 64-bit two's complement values, read with \<open>sint\<close>. The start of a bar
  comes out of \<open>Truncate\<close>, which strips the monotonic clock reading, so the elapsed time
  \<open>now.Sub(start)\<close> is the difference of the two wall-clock times.
\<close>

type_synonym float64 = real
type_synonym time = int
type_synonym Duration = "64 word"
type_synonym go_int = "64 word"

text \<open>The dynamic values a decoded payload \<open>map[string]interface{}\<close> can hold.\<close>

datatype go_value = Float64 float64 | String string | Bool bool | Nil

type_synonym payload = "string \<rightharpoonup> go_value"

text \<open>\<open>HistoryBar\<close> of models.go.\<close>

record HistoryBar =
  Time :: time
  Open :: float64
  High :: float64
  Low :: float64
  Close :: float64
  Vol :: go_int

text \<open>
  What a call does besides changing the aggregator: a line written with \<open>log.Printf\<close>, or
  a call of the emission callback with a copy of a bar.
\<close>

datatype 'cb effect = Log string | Callback 'cb HistoryBar

text \<open>\<open>MarketDataManager\<close>: \<open>currentBar\<close> is a nil-able pointer, \<open>callback\<close> a nil-able function.\<close>

record 'cb MarketDataManager =
  currentBar :: "HistoryBar option"
  lastTradeTime :: time
  barPeriod :: Duration
  callback :: "'cb option"
  contractID :: string

section \<open>The standard library operations the aggregator uses\<close>

definition maxDuration :: int where
  "maxDuration = 2 ^ 63 - 1"

definition minDuration :: int where
  "minDuration = - (2 ^ 63)"

text \<open>
  \<open>t.Truncate(d)\<close>: \<open>t\<close> rounded down to a multiple of \<open>d\<close> since the zero time; \<open>t\<close> itself
  when \<open>d <= 0\<close>.
\<close>

definition Truncate :: "time \<Rightarrow> Duration \<Rightarrow> time" where
  "Truncate t d = (if sint d \<le> 0 then t else t - t mod sint d)"

text \<open>\<open>t.Sub(u)\<close>: the duration \<open>t - u\<close>, saturating at the largest and smallest duration.\<close>

definition Sub :: "time \<Rightarrow> time \<Rightarrow> int" where
  "Sub t u = (if t - u > maxDuration then maxDuration
              else if t - u < minDuration then minDuration else t - u)"

text \<open>
  The comma-ok type assertion \<open>v.(float64)\<close> on the result of a map lookup: a missing key
  gives the nil interface, and every value that is not a \<open>float64\<close> gives \<open>(0, false)\<close>.
\<close>

definition assert_float64 :: "go_value option \<Rightarrow> float64 \<times> bool" where
  "assert_float64 v = (case v of Some (Float64 x) \<Rightarrow> (x, True) | _ \<Rightarrow> (0, False))"

text \<open>
  The conversion \<open>int(size)\<close>: the fraction is discarded (truncation towards zero). Outside
  the range of \<open>int\<close> Go leaves the result to the implementation; no theorem below depends
  on the value chosen there.
\<close>

definition int_of_float64 :: "float64 \<Rightarrow> go_int" where
  "int_of_float64 x = word_of_int (if 0 \<le> x then \<lfloor>x\<rfloor> else \<lceil>x\<rceil>)"

section \<open>The bar aggregator\<close>

definition NewMarketDataManager :: "string \<Rightarrow> go_int \<Rightarrow> 'cb option \<Rightarrow> 'cb MarketDataManager" where
  "NewMarketDataManager cid barPeriodMinutes cb =
     \<lparr>currentBar = None, lastTradeTime = 0,
      barPeriod = barPeriodMinutes * 60000000000,
      callback = cb, contractID = cid\<rparr>"

definition initializeNewBar :: "time \<Rightarrow> float64 \<Rightarrow> 'cb MarketDataManager \<Rightarrow> 'cb MarketDataManager" where
  "initializeNewBar t price m =
     m\<lparr>currentBar := Some \<lparr>Time = Truncate t (barPeriod m), Open = price, High = price,
                            Low = price, Close = price, Vol = 0\<rparr>\<rparr>"

definition closeCurrentBar :: "'cb MarketDataManager \<Rightarrow> 'cb effect list" where
  "closeCurrentBar m =
     (case currentBar m of
        None \<Rightarrow> []
      | Some bar \<Rightarrow> (case callback m of None \<Rightarrow> [] | Some cb \<Rightarrow> [Callback cb bar]))"

text \<open>The update of the extremes and the close that \<open>OnQuote\<close> and \<open>OnTrade\<close> share.\<close>

definition updatePrice :: "float64 \<Rightarrow> HistoryBar \<Rightarrow> HistoryBar" where
  "updatePrice price bar =
     (let bar1 = (if price > High bar then bar\<lparr>High := price\<rparr> else bar);
          bar2 = (if price < Low bar1 then bar1\<lparr>Low := price\<rparr> else bar1)
      in bar2\<lparr>Close := price\<rparr>)"

text \<open>The check that ends both handlers: close the bar and open the next one.\<close>

definition rollOver :: "time \<Rightarrow> float64 \<Rightarrow> 'cb MarketDataManager \<Rightarrow> HistoryBar
    \<Rightarrow> 'cb MarketDataManager \<times> 'cb effect list" where
  "rollOver now price m bar =
     (if Sub now (Time bar) \<ge> sint (barPeriod m)
      then (initializeNewBar now price m, closeCurrentBar m)
      else (m, []))"

definition OnQuote :: "string \<Rightarrow> payload \<Rightarrow> time \<Rightarrow> 'cb MarketDataManager
    \<Rightarrow> 'cb MarketDataManager \<times> 'cb effect list" where
  "OnQuote cid data now m =
     (if cid \<noteq> contractID m then (m, [])
      else
        let (bid, ok1) = assert_float64 (data ''bid'');
            (ask, ok2) = assert_float64 (data ''ask'')
        in if \<not> ok1 \<or> \<not> ok2 then (m, [Log ''Invalid quote data format''])
           else (case currentBar m of
                   None \<Rightarrow> (initializeNewBar now ((bid + ask) / 2) m, [])
                 | Some bar \<Rightarrow>
                     let price = (bid + ask) / 2;
                         bar' = updatePrice price bar;
                         m' = m\<lparr>currentBar := Some bar'\<rparr>
                     in rollOver now price m' bar'))"

definition OnTrade :: "string \<Rightarrow> payload \<Rightarrow> time \<Rightarrow> 'cb MarketDataManager
    \<Rightarrow> 'cb MarketDataManager \<times> 'cb effect list" where
  "OnTrade cid data now m =
     (if cid \<noteq> contractID m then (m, [])
      else
        let (price, ok1) = assert_float64 (data ''price'');
            (size, ok2) = assert_float64 (data ''size'')
        in if \<not> ok1 \<or> \<not> ok2 then (m, [Log ''Invalid trade data format''])
           else
             let m0 = m\<lparr>lastTradeTime := now\<rparr>
             in (case currentBar m0 of
                   None \<Rightarrow> (initializeNewBar now price m0, [])
                 | Some bar \<Rightarrow>
                     let bar' = (updatePrice price bar)\<lparr>Vol := Vol (updatePrice price bar) + int_of_float64 size\<rparr>;
                         m' = m0\<lparr>currentBar := Some bar'\<rparr>
                     in rollOver now price m' bar'))"

definition OnDepth :: "string \<Rightarrow> payload \<Rightarrow> 'cb MarketDataManager
    \<Rightarrow> 'cb MarketDataManager \<times> 'cb effect list" where
  "OnDepth cid data m = (m, [])"


text \<open>
  \<open>SignalRClient.OnGatewayQuote\<close>, \<open>OnGatewayTrade\<close> and \<open>OnGatewayDepth\<close> forward a
  pushed message to the handler; the arrival time is what \<open>time.Now()\<close> returns inside the
  handler. \<open>deliver\<close> applies them in the order of delivery and collects the effects.
\<close>

datatype message =
    GatewayQuote string payload time
  | GatewayTrade string payload time
  | GatewayDepth string payload

fun dispatch :: "message \<Rightarrow> 'cb MarketDataManager \<Rightarrow> 'cb MarketDataManager \<times> 'cb effect list" where
  "dispatch (GatewayQuote cid data now) m = OnQuote cid data now m"
| "dispatch (GatewayTrade cid data now) m = OnTrade cid data now m"
| "dispatch (GatewayDepth cid data) m = OnDepth cid data m"

fun deliver :: "message list \<Rightarrow> 'cb MarketDataManager \<Rightarrow> 'cb MarketDataManager \<times> 'cb effect list" where
  "deliver [] m = (m, [])"
| "deliver (x # xs) m =
     (let (m1, out1) = dispatch x m; (m2, out2) = deliver xs m1 in (m2, out1 @ out2))"

text \<open>Well-formed payloads, as the handlers test them.\<close>

definition quote :: "float64 \<Rightarrow> float64 \<Rightarrow> payload" where
  "quote bid ask = [''bid'' \<mapsto> Float64 bid, ''ask'' \<mapsto> Float64 ask]"

definition trade :: "float64 \<Rightarrow> float64 \<Rightarrow> payload" where
  "trade price sz = [''price'' \<mapsto> Float64 price, ''size'' \<mapsto> Float64 sz]"

section \<open>The connection manager\<close>

text \<open>
  The hub answers every \<open>Send\<close> with nil or an error: \<open>hub method contractID\<close> is that
  answer, \<open>None\<close> for nil. An \<open>error\<close> is its message. What a call does besides changing the
  client is a list of actions: a message sent to the hub, a \<open>log.Printf\<close> with its
  arguments, the cancellation of the context, the stop of the underlying client.
\<close>

type_synonym error = string
type_synonym hub = "string \<Rightarrow> string \<Rightarrow> error option"

datatype arg = Str string | Num go_int

datatype action = Send string string | Printf string "arg list" | Cancel | ClientStop

record SignalRClient =
  subscriptions :: "string \<rightharpoonup> bool"
  isConnected :: bool
  reconnectCount :: go_int

definition Subscribe :: "hub \<Rightarrow> string \<Rightarrow> SignalRClient \<Rightarrow> error option \<times> SignalRClient \<times> action list" where
  "Subscribe h cid c =
     (if \<not> isConnected c then (Some ''not connected to SignalR hub'', c, [])
      else case h ''SubscribeContractQuotes'' cid of
        Some err \<Rightarrow> (Some (''failed to subscribe to quotes: '' @ err), c,
                      [Send ''SubscribeContractQuotes'' cid])
      | None \<Rightarrow>
       (case h ''SubscribeContractTrades'' cid of
          Some err \<Rightarrow> (Some (''failed to subscribe to trades: '' @ err), c,
                        [Send ''SubscribeContractQuotes'' cid, Send ''SubscribeContractTrades'' cid])
        | None \<Rightarrow>
         (case h ''SubscribeContractMarketDepth'' cid of
            Some err \<Rightarrow> (Some (''failed to subscribe to market depth: '' @ err), c,
                          [Send ''SubscribeContractQuotes'' cid, Send ''SubscribeContractTrades'' cid,
                           Send ''SubscribeContractMarketDepth'' cid])
          | None \<Rightarrow> (None, c\<lparr>subscriptions := (subscriptions c)(cid \<mapsto> True)\<rparr>,
                          [Send ''SubscribeContractQuotes'' cid, Send ''SubscribeContractTrades'' cid,
                           Send ''SubscribeContractMarketDepth'' cid]))))"

definition unsubscribe :: "hub \<Rightarrow> string \<Rightarrow> SignalRClient \<Rightarrow> error option \<times> SignalRClient \<times> action list" where
  "unsubscribe h cid c =
     (if \<not> isConnected c then (Some ''not connected to SignalR hub'', c, [])
      else case h ''UnsubscribeContractQuotes'' cid of
        Some err \<Rightarrow> (Some (''failed to unsubscribe from quotes: '' @ err), c,
                      [Send ''UnsubscribeContractQuotes'' cid])
      | None \<Rightarrow>
       (case h ''UnsubscribeContractTrades'' cid of
          Some err \<Rightarrow> (Some (''failed to unsubscribe from trades: '' @ err), c,
                        [Send ''UnsubscribeContractQuotes'' cid, Send ''UnsubscribeContractTrades'' cid])
        | None \<Rightarrow>
         (case h ''UnsubscribeContractMarketDepth'' cid of
            Some err \<Rightarrow> (Some (''failed to unsubscribe from market depth: '' @ err), c,
                          [Send ''UnsubscribeContractQuotes'' cid, Send ''UnsubscribeContractTrades'' cid,
                           Send ''UnsubscribeContractMarketDepth'' cid])
          | None \<Rightarrow> (None, c\<lparr>subscriptions := (subscriptions c)(cid := None)\<rparr>,
                          [Send ''UnsubscribeContractQuotes'' cid, Send ''UnsubscribeContractTrades'' cid,
                           Send ''UnsubscribeContractMarketDepth'' cid]))))"

definition Unsubscribe :: "hub \<Rightarrow> string \<Rightarrow> SignalRClient \<Rightarrow> error option \<times> SignalRClient \<times> action list" where
  "Unsubscribe h cid c = unsubscribe h cid c"

text \<open>
  A \<open>for ... range c.subscriptions\<close> loop visits the keys in an order Go does not fix:
  \<open>keys\<close> is that order, an enumeration of the keys of the map when the loop starts. An
  entry removed before the loop reaches it is not produced.
\<close>

fun StopLoop :: "hub \<Rightarrow> string list \<Rightarrow> SignalRClient \<Rightarrow> SignalRClient \<times> action list" where
  "StopLoop h [] c = (c, [])"
| "StopLoop h (cid # keys) c =
     (if subscriptions c cid = None then StopLoop h keys c
      else
        let (err, c1, a1) = unsubscribe h cid c;
            a2 = (case err of None \<Rightarrow> []
                  | Some e \<Rightarrow> [Printf ''Failed to unsubscribe from %s: %v'' [Str cid, Str e]]);
            (c2, a3) = StopLoop h keys c1
        in (c2, a1 @ a2 @ a3))"

definition Stop :: "hub \<Rightarrow> string list \<Rightarrow> SignalRClient \<Rightarrow> error option \<times> SignalRClient \<times> action list" where
  "Stop h keys c =
     (let (c1, a1) = StopLoop h keys c
      in (None, c1\<lparr>isConnected := False\<rparr>, a1 @ [Cancel, ClientStop]))"

fun OnConnectedLoop :: "hub \<Rightarrow> string list \<Rightarrow> SignalRClient \<Rightarrow> SignalRClient \<times> action list" where
  "OnConnectedLoop h [] c = (c, [])"
| "OnConnectedLoop h (cid # keys) c =
     (if subscriptions c cid = None then OnConnectedLoop h keys c
      else
        let (err, c1, a1) = Subscribe h cid c;
            a2 = (case err of None \<Rightarrow> []
                  | Some e \<Rightarrow> [Printf ''Failed to resubscribe to %s: %v'' [Str cid, Str e]]);
            (c2, a3) = OnConnectedLoop h keys c1
        in (c2, a1 @ a2 @ a3))"

definition OnConnected :: "hub \<Rightarrow> string \<Rightarrow> string list \<Rightarrow> SignalRClient \<Rightarrow> SignalRClient \<times> action list" where
  "OnConnected h connectionID keys c =
     (let c0 = c\<lparr>isConnected := True\<rparr>;
          (c1, a1) = OnConnectedLoop h keys c0
      in (c1, Printf ''SignalR connected with ID: %s'' [Str connectionID] # a1))"

definition OnDisconnected :: "string \<Rightarrow> SignalRClient \<Rightarrow> SignalRClient \<times> action list" where
  "OnDisconnected connectionID c =
     (let c1 = c\<lparr>isConnected := False, reconnectCount := reconnectCount c + 1\<rparr>
      in (c1, [Printf ''SignalR disconnected (attempt %d)'' [Num (reconnectCount c1)]]))"

definition IsConnected :: "SignalRClient \<Rightarrow> bool" where
  "IsConnected c = isConnected c"


section \<open>Vocabulary of the properties\<close>

text \<open>A payload field is numeric when the type assertion to \<open>float64\<close> succeeds on it.\<close>

definition numeric :: "go_value option \<Rightarrow> bool" where
  "numeric v = (case v of Some (Float64 x) \<Rightarrow> True | _ \<Rightarrow> False)"

text \<open>
  A well-formed tick: a quote with its bid, ask and arrival time, or a trade with its
  price, size and arrival time. \<open>message_of\<close> is the pushed message that carries it,
  \<open>price_of\<close> the price the handler works with, \<open>volume_of\<close> what it adds to the volume.
\<close>

datatype tick = QuoteTick float64 float64 time | TradeTick float64 float64 time

fun message_of :: "string \<Rightarrow> tick \<Rightarrow> message" where
  "message_of cid (QuoteTick bid ask now) = GatewayQuote cid (quote bid ask) now"
| "message_of cid (TradeTick price sz now) = GatewayTrade cid (trade price sz) now"

fun price_of :: "tick \<Rightarrow> float64" where
  "price_of (QuoteTick bid ask now) = (bid + ask) / 2"
| "price_of (TradeTick price sz now) = price"

fun volume_of :: "tick \<Rightarrow> go_int" where
  "volume_of (QuoteTick bid ask now) = 0"
| "volume_of (TradeTick price sz now) = int_of_float64 sz"

fun arrival :: "tick \<Rightarrow> time" where
  "arrival (QuoteTick bid ask now) = now"
| "arrival (TradeTick price sz now) = now"

text \<open>The size of a trade, rounded down; a quote has none.\<close>

fun floor_size :: "tick \<Rightarrow> int" where
  "floor_size (QuoteTick bid ask now) = 0"
| "floor_size (TradeTick price sz now) = \<lfloor>sz\<rfloor>"

fun nonneg_size :: "tick \<Rightarrow> bool" where
  "nonneg_size (QuoteTick bid ask now) = True"
| "nonneg_size (TradeTick price sz now) = (0 \<le> sz)"

text \<open>The bar invariant on the prices.\<close>

definition ohlc_ok :: "HistoryBar \<Rightarrow> bool" where
  "ohlc_ok bar = (Low bar \<le> min (Open bar) (Close bar) \<and> max (Open bar) (Close bar) \<le> High bar)"

text \<open>Two hubs: one that accepts every message, one that rejects a single method.\<close>

definition hubOK :: hub where
  "hubOK method cid = None"

definition hubRejecting :: "string \<Rightarrow> hub" where
  "hubRejecting bad method cid = (if method = bad then Some ''rejected'' else None)"

text \<open>The hub accepts the three unregistrations of an instrument.\<close>

definition unregistered :: "hub \<Rightarrow> string \<Rightarrow> bool" where
  "unregistered h cid =
     (h ''UnsubscribeContractQuotes'' cid = None \<and> h ''UnsubscribeContractTrades'' cid = None
      \<and> h ''UnsubscribeContractMarketDepth'' cid = None)"

text \<open>
  The update rule of a tick in the spec's words: \<open>high = max(high, price)\<close>,
  \<open>low = min(low, price)\<close>, \<open>close = price\<close>, and a trade adds its size to the volume.
  \<open>touch\<close> is the other change a tick makes: a trade records its arrival time.
\<close>

definition apply_tick :: "tick \<Rightarrow> HistoryBar \<Rightarrow> HistoryBar" where
  "apply_tick tk bar =
     bar\<lparr>High := max (High bar) (price_of tk), Low := min (Low bar) (price_of tk),
         Close := price_of tk, Vol := Vol bar + volume_of tk\<rparr>"

fun touch :: "tick \<Rightarrow> 'cb MarketDataManager \<Rightarrow> 'cb MarketDataManager" where
  "touch (QuoteTick bid ask now) m = m"
| "touch (TradeTick price sz now) m = m\<lparr>lastTradeTime := now\<rparr>"

text \<open>
  The instrument a pushed message is for, and the tick it carries when its payload is
  well formed: the handlers read nothing else from the payload.
\<close>

fun instrument :: "message \<Rightarrow> string" where
  "instrument (GatewayQuote cid data now) = cid"
| "instrument (GatewayTrade cid data now) = cid"
| "instrument (GatewayDepth cid data) = cid"

fun tick_of :: "message \<Rightarrow> tick option" where
  "tick_of (GatewayQuote cid data now) =
     (case data ''bid'' of
        Some (Float64 bid) \<Rightarrow>
          (case data ''ask'' of Some (Float64 ask) \<Rightarrow> Some (QuoteTick bid ask now) | _ \<Rightarrow> None)
      | _ \<Rightarrow> None)"
| "tick_of (GatewayTrade cid data now) =
     (case data ''price'' of
        Some (Float64 price) \<Rightarrow>
          (case data ''size'' of Some (Float64 sz) \<Rightarrow> Some (TradeTick price sz now) | _ \<Rightarrow> None)
      | _ \<Rightarrow> None)"
| "tick_of (GatewayDepth cid data) = None"

fun is_quote :: "tick \<Rightarrow> bool" where
  "is_quote (QuoteTick bid ask now) = True"
| "is_quote (TradeTick price sz now) = False"

section \<open>Malformed payloads\<close>

lemma assert_float64_numeric: "snd (assert_float64 v) = numeric v"
  by (simp add: assert_float64_def numeric_def split: option.splits go_value.splits)

lemma OnQuote_malformed:
  "\<not> numeric (data ''bid'') \<or> \<not> numeric (data ''ask'') \<Longrightarrow>
   OnQuote cid data now m =
     (m, if cid = contractID m then [Log ''Invalid quote data format''] else [])"
  using assert_float64_numeric[of "data ''bid''"] assert_float64_numeric[of "data ''ask''"]
  by (auto simp: OnQuote_def Let_def split: prod.splits)

lemma OnTrade_malformed:
  "\<not> numeric (data ''price'') \<or> \<not> numeric (data ''size'') \<Longrightarrow>
   OnTrade cid data now m =
     (m, if cid = contractID m then [Log ''Invalid trade data format''] else [])"
  using assert_float64_numeric[of "data ''price''"] assert_float64_numeric[of "data ''size''"]
  by (auto simp: OnTrade_def Let_def split: prod.splits)

text \<open>
  C6. A quote whose bid or ask, or a trade whose price or size, is missing or is not a
  number leaves the aggregator exactly as it was (current bar, last trade time and all
  other fields), returns, and does not call the emission callback; the only effect is the
  diagnostic log line.
\<close>

theorem malformed_dropped:
  "(\<not> numeric (data ''bid'') \<or> \<not> numeric (data ''ask'') \<longrightarrow>
      fst (OnQuote cid data now m) = m \<and>
      (\<forall>cb bar. Callback cb bar \<notin> set (snd (OnQuote cid data now m))))
   \<and> (\<not> numeric (data ''price'') \<or> \<not> numeric (data ''size'') \<longrightarrow>
      fst (OnTrade cid data now m) = m \<and>
      (\<forall>cb bar. Callback cb bar \<notin> set (snd (OnTrade cid data now m))))"
  by (auto simp: OnQuote_malformed OnTrade_malformed)

theorem malformed_dropped_witness:
  "\<not> numeric ([''bid'' \<mapsto> String ''1.5''] ''bid'')
   \<and> \<not> numeric ([''bid'' \<mapsto> String ''1.5''] ''size'')
   \<and> fst (OnQuote ''X'' [''bid'' \<mapsto> String ''1.5''] 7 (NewMarketDataManager ''X'' 1 (Some ())))
       = NewMarketDataManager ''X'' 1 (Some ())
   \<and> fst (OnTrade ''X'' [''bid'' \<mapsto> String ''1.5''] 7 (NewMarketDataManager ''X'' 1 (Some ())))
       = NewMarketDataManager ''X'' 1 (Some ())"
  using malformed_dropped [of "[''bid'' \<mapsto> String ''1.5'']" "''X''" 7 "NewMarketDataManager ''X'' 1 (Some ())"]
  by (simp add: numeric_def)

section \<open>Subscribing\<close>

text \<open>
  C5. Subscribe while not connected returns the "not connected" error at once, sends nothing
  and changes nothing. When connected it sends the quotes, trades and depth registrations
  in this order, stops at the first one the hub rejects and returns an error naming it,
  with the client unchanged; only when the hub accepts all three is the instrument added
  to the subscription set.
\<close>

theorem Subscribe_all_or_nothing:
  "(\<not> isConnected c \<longrightarrow>
      Subscribe h cid c = (Some ''not connected to SignalR hub'', c, []))
   \<and> (isConnected c \<and> h ''SubscribeContractQuotes'' cid = Some e \<longrightarrow>
      Subscribe h cid c = (Some (''failed to subscribe to quotes: '' @ e), c,
         [Send ''SubscribeContractQuotes'' cid]))
   \<and> (isConnected c \<and> h ''SubscribeContractQuotes'' cid = None
        \<and> h ''SubscribeContractTrades'' cid = Some e \<longrightarrow>
      Subscribe h cid c = (Some (''failed to subscribe to trades: '' @ e), c,
         [Send ''SubscribeContractQuotes'' cid, Send ''SubscribeContractTrades'' cid]))
   \<and> (isConnected c \<and> h ''SubscribeContractQuotes'' cid = None
        \<and> h ''SubscribeContractTrades'' cid = None
        \<and> h ''SubscribeContractMarketDepth'' cid = Some e \<longrightarrow>
      Subscribe h cid c = (Some (''failed to subscribe to market depth: '' @ e), c,
         [Send ''SubscribeContractQuotes'' cid, Send ''SubscribeContractTrades'' cid,
          Send ''SubscribeContractMarketDepth'' cid]))
   \<and> (isConnected c \<and> h ''SubscribeContractQuotes'' cid = None
        \<and> h ''SubscribeContractTrades'' cid = None
        \<and> h ''SubscribeContractMarketDepth'' cid = None \<longrightarrow>
      Subscribe h cid c = (None, c\<lparr>subscriptions := (subscriptions c)(cid \<mapsto> True)\<rparr>,
         [Send ''SubscribeContractQuotes'' cid, Send ''SubscribeContractTrades'' cid,
          Send ''SubscribeContractMarketDepth'' cid]))"
  by (simp add: Subscribe_def)

theorem Subscribe_all_or_nothing_witness:
  "Subscribe hubOK ''X'' \<lparr>subscriptions = Map.empty, isConnected = False, reconnectCount = 0\<rparr>
     = (Some ''not connected to SignalR hub'',
        \<lparr>subscriptions = Map.empty, isConnected = False, reconnectCount = 0\<rparr>, [])
   \<and> fst (Subscribe (hubRejecting ''SubscribeContractTrades'') ''X''
        \<lparr>subscriptions = Map.empty, isConnected = True, reconnectCount = 0\<rparr>)
     = Some ''failed to subscribe to trades: rejected''
   \<and> subscriptions (fst (snd (Subscribe (hubRejecting ''SubscribeContractTrades'') ''X''
        \<lparr>subscriptions = Map.empty, isConnected = True, reconnectCount = 0\<rparr>))) ''X'' = None
   \<and> subscriptions (fst (snd (Subscribe hubOK ''X''
        \<lparr>subscriptions = Map.empty, isConnected = True, reconnectCount = 0\<rparr>))) ''X'' = Some True"
  using Subscribe_all_or_nothing [of "\<lparr>subscriptions = Map.empty, isConnected = False, reconnectCount = 0\<rparr>" hubOK "''X''" "''rejected''"]
    Subscribe_all_or_nothing [of "\<lparr>subscriptions = Map.empty, isConnected = True, reconnectCount = 0\<rparr>" "hubRejecting ''SubscribeContractTrades''" "''X''" "''rejected''"]
    Subscribe_all_or_nothing [of "\<lparr>subscriptions = Map.empty, isConnected = True, reconnectCount = 0\<rparr>" hubOK "''X''" "''rejected''"]
  by (simp add: hubOK_def hubRejecting_def)

section \<open>Unsubscribing and stopping\<close>

lemma unsubscribe_ok:
  "isConnected c \<Longrightarrow> unregistered h cid \<Longrightarrow>
   \<exists>a. unsubscribe h cid c = (None, c\<lparr>subscriptions := (subscriptions c)(cid := None)\<rparr>, a)"
  by (simp add: unsubscribe_def unregistered_def)

lemma unsubscribe_fail:
  "\<not> (isConnected c \<and> unregistered h cid) \<Longrightarrow>
   \<exists>e a. unsubscribe h cid c = (Some e, c, a)"
  by (auto simp: unsubscribe_def unregistered_def split: option.splits)

lemma StopLoop_isConnected: "isConnected (fst (StopLoop h keys c)) = isConnected c"
proof (induction keys arbitrary: c)
  case Nil then show ?case by simp
next
  case (Cons k keys)
  show ?case
  proof (cases "isConnected c \<and> unregistered h k")
    case True
    then obtain a where "unsubscribe h k c = (None, c\<lparr>subscriptions := (subscriptions c)(k := None)\<rparr>, a)"
      using unsubscribe_ok by blast
    then show ?thesis using Cons.IH[of "c\<lparr>subscriptions := (subscriptions c)(k := None)\<rparr>"] Cons.IH[of c]
      by (auto split: prod.splits)
  next
    case False
    then obtain e a where "unsubscribe h k c = (Some e, c, a)"
      using unsubscribe_fail by blast
    then show ?thesis using Cons.IH[of c] by (auto split: prod.splits)
  qed
qed

lemma StopLoop_subscriptions:
  "subscriptions (fst (StopLoop h keys c)) =
   (\<lambda>k. if k \<in> set keys \<and> isConnected c \<and> unregistered h k then None else subscriptions c k)"
proof (induction keys arbitrary: c)
  case Nil then show ?case by simp
next
  case (Cons k keys)
  show ?case
  proof (cases "subscriptions c k = None")
    case True
    then show ?thesis using Cons.IH[of c] by (auto simp: fun_eq_iff)
  next
    case present: False
    show ?thesis
    proof (cases "isConnected c \<and> unregistered h k")
      case True
      then obtain a where "unsubscribe h k c = (None, c\<lparr>subscriptions := (subscriptions c)(k := None)\<rparr>, a)"
        using unsubscribe_ok by blast
      then show ?thesis using present True Cons.IH[of "c\<lparr>subscriptions := (subscriptions c)(k := None)\<rparr>"]
        by (auto simp: fun_eq_iff split: prod.splits)
    next
      case False
      then obtain e a where "unsubscribe h k c = (Some e, c, a)"
        using unsubscribe_fail by blast
      then show ?thesis using present False Cons.IH[of c]
        by (auto simp: fun_eq_iff split: prod.splits)
    qed
  qed
qed


text \<open>
  C1, as the code has it. Unsubscribe removes the instrument from the subscription set
  exactly when the client is connected and the hub accepts all three unregistrations;
  otherwise it returns an error and leaves the client unchanged. Stop removes exactly the
  tracked entries it could unsubscribe in this sense and keeps the others.
\<close>

theorem unsubscribe_all_or_nothing:
  assumes "set keys = dom (subscriptions c)"
  shows "(isConnected c \<and> unregistered h cid \<longrightarrow>
            fst (Unsubscribe h cid c) = None \<and>
            fst (snd (Unsubscribe h cid c)) = c\<lparr>subscriptions := (subscriptions c)(cid := None)\<rparr>)
       \<and> (\<not> (isConnected c \<and> unregistered h cid) \<longrightarrow>
            fst (Unsubscribe h cid c) \<noteq> None \<and> fst (snd (Unsubscribe h cid c)) = c)
       \<and> subscriptions (fst (snd (Stop h keys c))) =
            (\<lambda>k. if isConnected c \<and> unregistered h k then None else subscriptions c k)"
proof -
  have a: "isConnected c \<and> unregistered h cid \<longrightarrow>
            fst (Unsubscribe h cid c) = None \<and>
            fst (snd (Unsubscribe h cid c)) = c\<lparr>subscriptions := (subscriptions c)(cid := None)\<rparr>"
    using unsubscribe_ok[of c h cid] by (auto simp: Unsubscribe_def)
  have b: "\<not> (isConnected c \<and> unregistered h cid) \<longrightarrow>
            fst (Unsubscribe h cid c) \<noteq> None \<and> fst (snd (Unsubscribe h cid c)) = c"
    using unsubscribe_fail[of c h cid] by (auto simp: Unsubscribe_def)
  have "subscriptions (fst (snd (Stop h keys c))) = subscriptions (fst (StopLoop h keys c))"
    by (simp add: Stop_def split: prod.splits)
  also have "\<dots> = (\<lambda>k. if isConnected c \<and> unregistered h k then None else subscriptions c k)"
    using assms by (auto simp: StopLoop_subscriptions fun_eq_iff)
  finally show ?thesis using a b by blast
qed

theorem unsubscribe_all_or_nothing_witness:
  "set [''X'', ''Y''] = dom (subscriptions \<lparr>subscriptions = [''X'' \<mapsto> True, ''Y'' \<mapsto> True], isConnected = True, reconnectCount = 0\<rparr>)
   \<and> fst (Unsubscribe hubOK ''X'' \<lparr>subscriptions = [''X'' \<mapsto> True, ''Y'' \<mapsto> True], isConnected = True, reconnectCount = 0\<rparr>) = None
   \<and> subscriptions (fst (snd (Unsubscribe hubOK ''X''
        \<lparr>subscriptions = [''X'' \<mapsto> True, ''Y'' \<mapsto> True], isConnected = True, reconnectCount = 0\<rparr>))) ''X'' = None
   \<and> subscriptions (fst (snd (Stop hubOK [''X'', ''Y'']
        \<lparr>subscriptions = [''X'' \<mapsto> True, ''Y'' \<mapsto> True], isConnected = True, reconnectCount = 0\<rparr>))) = Map.empty"
  using unsubscribe_all_or_nothing [of "[''X'', ''Y'']"
      "\<lparr>subscriptions = [''X'' \<mapsto> True, ''Y'' \<mapsto> True], isConnected = True, reconnectCount = 0\<rparr>" hubOK "''X''"]
  by (simp add: hubOK_def unregistered_def insert_commute)

text \<open>
  An instrument stays in the subscription set when an unregistration is rejected, when
  the client is not connected, and when Stop meets a rejected unregistration.
\<close>

theorem unsubscribe_failure_keeps_entry:
  "subscriptions (fst (snd (Unsubscribe (hubRejecting ''UnsubscribeContractTrades'') ''X''
      \<lparr>subscriptions = [''X'' \<mapsto> True], isConnected = True, reconnectCount = 0\<rparr>))) ''X'' = Some True
   \<and> subscriptions (fst (snd (Unsubscribe hubOK ''X''
      \<lparr>subscriptions = [''X'' \<mapsto> True], isConnected = False, reconnectCount = 0\<rparr>))) ''X'' = Some True
   \<and> subscriptions (fst (snd (Stop (hubRejecting ''UnsubscribeContractTrades'') [''X'']
      \<lparr>subscriptions = [''X'' \<mapsto> True], isConnected = True, reconnectCount = 0\<rparr>))) ''X'' = Some True"
  by (simp add: Unsubscribe_def unsubscribe_def Stop_def hubRejecting_def hubOK_def)

section \<open>Resubscribing on connect\<close>

lemma Subscribe_indep:
  "isConnected c1 \<Longrightarrow> isConnected c2 \<Longrightarrow>
   fst (Subscribe h cid c1) = fst (Subscribe h cid c2) \<and>
   snd (snd (Subscribe h cid c1)) = snd (snd (Subscribe h cid c2))"
  by (simp add: Subscribe_def split: option.splits)

lemma Subscribe_keeps:
  "subscriptions c cid \<noteq> None \<Longrightarrow>
   dom (subscriptions (fst (snd (Subscribe h cid c)))) = dom (subscriptions c) \<and>
   isConnected (fst (snd (Subscribe h cid c))) = isConnected c"
  by (auto simp: Subscribe_def split: option.splits)

lemma Subscribe_sends_first:
  "isConnected c \<Longrightarrow> Send ''SubscribeContractQuotes'' cid \<in> set (snd (snd (Subscribe h cid c)))"
  by (simp add: Subscribe_def split: option.splits)

lemma OnConnectedLoop_run:
  "isConnected c \<Longrightarrow> isConnected c0 \<Longrightarrow> set keys \<subseteq> dom (subscriptions c) \<Longrightarrow>
   snd (OnConnectedLoop h keys c) =
     concat (map (\<lambda>cid. snd (snd (Subscribe h cid c0)) @
        (case fst (Subscribe h cid c0) of None \<Rightarrow> []
         | Some e \<Rightarrow> [Printf ''Failed to resubscribe to %s: %v'' [Str cid, Str e]])) keys)
   \<and> dom (subscriptions (fst (OnConnectedLoop h keys c))) = dom (subscriptions c)
   \<and> isConnected (fst (OnConnectedLoop h keys c))"
proof (induction keys arbitrary: c)
  case Nil
  then show ?case by simp
next
  case (Cons k keys)
  obtain err c1 a1 where s: "Subscribe h k c = (err, c1, a1)" by (cases "Subscribe h k c") auto
  have present: "subscriptions c k \<noteq> None" using Cons.prems by auto
  have c1: "dom (subscriptions c1) = dom (subscriptions c)" "isConnected c1"
    using Subscribe_keeps[OF present, of h] s Cons.prems by auto
  have same: "err = fst (Subscribe h k c0)" "a1 = snd (snd (Subscribe h k c0))"
    using Subscribe_indep[of c c0 h k] s Cons.prems by auto
  have ih: "snd (OnConnectedLoop h keys c1) =
     concat (map (\<lambda>cid. snd (snd (Subscribe h cid c0)) @
        (case fst (Subscribe h cid c0) of None \<Rightarrow> []
         | Some e \<Rightarrow> [Printf ''Failed to resubscribe to %s: %v'' [Str cid, Str e]])) keys)
   \<and> dom (subscriptions (fst (OnConnectedLoop h keys c1))) = dom (subscriptions c1)
   \<and> isConnected (fst (OnConnectedLoop h keys c1))"
    using Cons.IH[of c1] c1 Cons.prems by auto
  have step: "OnConnectedLoop h (k # keys) c =
      (fst (OnConnectedLoop h keys c1),
       a1 @ (case err of None \<Rightarrow> []
             | Some e \<Rightarrow> [Printf ''Failed to resubscribe to %s: %v'' [Str k, Str e]])
          @ snd (OnConnectedLoop h keys c1))"
    using present s by (auto split: prod.splits)
  show ?case unfolding step using same ih c1 by simp
qed

text \<open>
  C8. On entering Connected, from any earlier state and so also after a disconnect, the
  client is connected, sends for every instrument of the subscription set the messages of
  a fresh Subscribe, one instrument after the other in the order of the iteration, logs
  each failure and goes on with the next instrument; the subscription set keeps all its
  instruments, the failed ones included.
\<close>

theorem resubscribe_on_connect:
  assumes "set keys = dom (subscriptions c)"
  shows "isConnected (fst (OnConnected h connectionID keys c))
    \<and> dom (subscriptions (fst (OnConnected h connectionID keys c))) = dom (subscriptions c)
    \<and> snd (OnConnected h connectionID keys c) =
        Printf ''SignalR connected with ID: %s'' [Str connectionID] #
        concat (map (\<lambda>cid. snd (snd (Subscribe h cid (c\<lparr>isConnected := True\<rparr>))) @
          (case fst (Subscribe h cid (c\<lparr>isConnected := True\<rparr>)) of None \<Rightarrow> []
           | Some e \<Rightarrow> [Printf ''Failed to resubscribe to %s: %v'' [Str cid, Str e]])) keys)
    \<and> (\<forall>cid \<in> dom (subscriptions c).
          Send ''SubscribeContractQuotes'' cid \<in> set (snd (OnConnected h connectionID keys c)) \<and>
          (\<forall>e. fst (Subscribe h cid (c\<lparr>isConnected := True\<rparr>)) = Some e \<longrightarrow>
             Printf ''Failed to resubscribe to %s: %v'' [Str cid, Str e]
               \<in> set (snd (OnConnected h connectionID keys c)) \<and>
             cid \<in> dom (subscriptions (fst (OnConnected h connectionID keys c)))))"
proof -
  let ?c0 = "c\<lparr>isConnected := True\<rparr>"
  let ?body = "\<lambda>cid. snd (snd (Subscribe h cid ?c0)) @
          (case fst (Subscribe h cid ?c0) of None \<Rightarrow> []
           | Some e \<Rightarrow> [Printf ''Failed to resubscribe to %s: %v'' [Str cid, Str e]])"
  have run: "snd (OnConnectedLoop h keys ?c0) = concat (map ?body keys)
     \<and> dom (subscriptions (fst (OnConnectedLoop h keys ?c0))) = dom (subscriptions ?c0)
     \<and> isConnected (fst (OnConnectedLoop h keys ?c0))"
    using OnConnectedLoop_run[of ?c0 ?c0 keys h] assms by simp
  have fst_eq: "fst (OnConnected h connectionID keys c) = fst (OnConnectedLoop h keys ?c0)"
    and snd_eq: "snd (OnConnected h connectionID keys c) =
       Printf ''SignalR connected with ID: %s'' [Str connectionID] # snd (OnConnectedLoop h keys ?c0)"
    by (simp_all add: OnConnected_def Let_def split: prod.splits)
  have mem: "\<And>cid x. cid \<in> set keys \<Longrightarrow> x \<in> set (?body cid) \<Longrightarrow> x \<in> set (concat (map ?body keys))"
    by auto
  have each: "\<And>cid. cid \<in> dom (subscriptions c) \<Longrightarrow>
          Send ''SubscribeContractQuotes'' cid \<in> set (concat (map ?body keys)) \<and>
          (\<forall>e. fst (Subscribe h cid ?c0) = Some e \<longrightarrow>
             Printf ''Failed to resubscribe to %s: %v'' [Str cid, Str e] \<in> set (concat (map ?body keys)))"
  proof -
    fix cid assume "cid \<in> dom (subscriptions c)"
    then have k: "cid \<in> set keys" using assms by simp
    have "Send ''SubscribeContractQuotes'' cid \<in> set (?body cid)"
      using Subscribe_sends_first[of ?c0 cid h] by simp
    moreover have "\<And>e. fst (Subscribe h cid ?c0) = Some e \<Longrightarrow>
        Printf ''Failed to resubscribe to %s: %v'' [Str cid, Str e] \<in> set (?body cid)"
      by simp
    ultimately show "Send ''SubscribeContractQuotes'' cid \<in> set (concat (map ?body keys)) \<and>
          (\<forall>e. fst (Subscribe h cid ?c0) = Some e \<longrightarrow>
             Printf ''Failed to resubscribe to %s: %v'' [Str cid, Str e] \<in> set (concat (map ?body keys)))"
      using mem[OF k] by blast
  qed
  show ?thesis using run fst_eq snd_eq each by simp
qed

theorem resubscribe_on_connect_witness:
  "set [''A'', ''B''] = dom (subscriptions \<lparr>subscriptions = [''A'' \<mapsto> True, ''B'' \<mapsto> True], isConnected = False, reconnectCount = 1\<rparr>)
   \<and> ''A'' \<in> dom (subscriptions \<lparr>subscriptions = [''A'' \<mapsto> True, ''B'' \<mapsto> True], isConnected = False, reconnectCount = 1\<rparr>)
   \<and> snd (OnConnected (hubRejecting ''SubscribeContractQuotes'') ''c1'' [''A'', ''B'']
        \<lparr>subscriptions = [''A'' \<mapsto> True, ''B'' \<mapsto> True], isConnected = False, reconnectCount = 1\<rparr>) =
      [Printf ''SignalR connected with ID: %s'' [Str ''c1''],
       Send ''SubscribeContractQuotes'' ''A'',
       Printf ''Failed to resubscribe to %s: %v'' [Str ''A'', Str ''failed to subscribe to quotes: rejected''],
       Send ''SubscribeContractQuotes'' ''B'',
       Printf ''Failed to resubscribe to %s: %v'' [Str ''B'', Str ''failed to subscribe to quotes: rejected'']]
   \<and> dom (subscriptions (fst (OnConnected (hubRejecting ''SubscribeContractQuotes'') ''c1'' [''A'', ''B'']
        \<lparr>subscriptions = [''A'' \<mapsto> True, ''B'' \<mapsto> True], isConnected = False, reconnectCount = 1\<rparr>))) = {''A'', ''B''}"
  using resubscribe_on_connect [of "[''A'', ''B'']"
      "\<lparr>subscriptions = [''A'' \<mapsto> True, ''B'' \<mapsto> True], isConnected = False, reconnectCount = 1\<rparr>"
      "hubRejecting ''SubscribeContractQuotes''" "''c1''"]
  by (simp add: Subscribe_def hubRejecting_def insert_commute)

section \<open>One tick\<close>

lemma updatePrice_eq:
  "updatePrice p bar = bar\<lparr>High := max (High bar) p, Low := min (Low bar) p, Close := p\<rparr>"
  by (cases bar) (simp add: updatePrice_def Let_def max_def min_def)

lemma tick_of_message_of [simp]: "tick_of (message_of cid tk) = Some tk"
  by (cases tk) (simp_all add: quote_def trade_def)

lemma instrument_message_of [simp]: "instrument (message_of cid tk) = cid"
  by (cases tk) simp_all

lemma dispatch_ignored: "instrument x \<noteq> contractID m \<Longrightarrow> dispatch x m = (m, [])"
  by (cases x) (simp_all add: OnQuote_def OnTrade_def OnDepth_def)

lemma dispatch_malformed:
  "tick_of x = None \<Longrightarrow>
   fst (dispatch x m) = m \<and> (\<forall>cb b. Callback cb b \<notin> set (snd (dispatch x m)))"
  by (cases x)
    (auto simp: OnQuote_def OnTrade_def OnDepth_def assert_float64_def
          split: option.splits go_value.splits)

lemma dispatch_open:
  "instrument x = contractID m \<Longrightarrow> tick_of x = Some tk \<Longrightarrow> currentBar m = None \<Longrightarrow>
   dispatch x m = (initializeNewBar (arrival tk) (price_of tk) (touch tk m), [])"
  by (cases x)
    (auto simp: OnQuote_def OnTrade_def assert_float64_def split: option.splits go_value.splits)

lemma dispatch_update:
  "instrument x = contractID m \<Longrightarrow> tick_of x = Some tk \<Longrightarrow> currentBar m = Some bar \<Longrightarrow>
   dispatch x m =
     rollOver (arrival tk) (price_of tk)
       ((touch tk m)\<lparr>currentBar := Some (apply_tick tk bar)\<rparr>) (apply_tick tk bar)"
  by (cases x; cases bar)
    (auto simp: OnQuote_def OnTrade_def Let_def apply_tick_def updatePrice_eq assert_float64_def
          split: option.splits go_value.splits)

lemma touch_fields [simp]:
  "currentBar (touch tk m) = currentBar m" "barPeriod (touch tk m) = barPeriod m"
  "callback (touch tk m) = callback m" "contractID (touch tk m) = contractID m"
  by (cases tk; simp)+

lemma apply_tick_Time [simp]: "Time (apply_tick tk bar) = Time bar"
  by (simp add: apply_tick_def)

lemma Sub_ge: "sint (d :: Duration) \<le> t - u \<Longrightarrow> sint d \<le> Sub t u"
proof -
  assume a: "sint d \<le> t - u"
  have "sint d \<le> maxDuration" using sint_lt[of d] by (simp add: maxDuration_def)
  moreover have "minDuration \<le> sint d" using sint_ge[of d] by (simp add: minDuration_def)
  ultimately show ?thesis using a by (simp add: Sub_def)
qed

lemma Sub_less: "0 < sint (d :: Duration) \<Longrightarrow> t - u < sint d \<Longrightarrow> Sub t u < sint d"
proof -
  assume p: "0 < sint d" and a: "t - u < sint d"
  have "sint d \<le> maxDuration" using sint_lt[of d] by (simp add: maxDuration_def)
  then show ?thesis using a p by (simp add: Sub_def minDuration_def)
qed

lemma dispatch_roll:
  assumes "instrument x = contractID m" "tick_of x = Some tk" "currentBar m = Some bar"
    and "sint (barPeriod m) \<le> Sub (arrival tk) (Time bar)"
  shows "dispatch x m =
     ((touch tk m)\<lparr>currentBar := Some \<lparr>Time = Truncate (arrival tk) (barPeriod m),
         Open = price_of tk, High = price_of tk, Low = price_of tk, Close = price_of tk, Vol = 0\<rparr>\<rparr>,
      case callback m of None \<Rightarrow> [] | Some cb \<Rightarrow> [Callback cb (apply_tick tk bar)])"
  using assms
  by (simp add: dispatch_update rollOver_def initializeNewBar_def closeCurrentBar_def)

lemma dispatch_stay:
  assumes "instrument x = contractID m" "tick_of x = Some tk" "currentBar m = Some bar"
    and "Sub (arrival tk) (Time bar) < sint (barPeriod m)"
  shows "dispatch x m = ((touch tk m)\<lparr>currentBar := Some (apply_tick tk bar)\<rparr>, [])"
  using assms by (simp add: dispatch_update rollOver_def)

section \<open>Opening, rolling over and emitting\<close>

lemma Truncate_greatest:
  assumes "0 < sint d"
  shows "sint d dvd Truncate t d \<and> Truncate t d \<le> t \<and>
         (\<forall>k. sint d dvd k \<and> k \<le> t \<longrightarrow> k \<le> Truncate t d)"
proof -
  let ?p = "sint d"
  have eq: "Truncate t d = (t div ?p) * ?p" using assms
    by (simp add: Truncate_def minus_mod_eq_div_mult)
  have "\<And>k. ?p dvd k \<Longrightarrow> k \<le> t \<Longrightarrow> k \<le> (t div ?p) * ?p"
  proof -
    fix k assume "?p dvd k" "k \<le> t"
    then obtain j where k: "k = ?p * j" by (auto simp: dvd_def)
    have "k div ?p \<le> t div ?p" using \<open>k \<le> t\<close> assms by (simp add: zdiv_mono1)
    then have "j \<le> t div ?p" using k assms by simp
    then show "k \<le> (t div ?p) * ?p" using k assms by (simp add: mult.commute)
  qed
  moreover have "(t div ?p) * ?p \<le> t" using assms
    by (metis mult.commute mult_div_mod_eq add_increasing2 order_refl pos_mod_sign)
  ultimately show ?thesis using eq by auto
qed

text \<open>
  C9. A tick for the instrument that opens a bar, as the first tick or by rolling over the
  current bar, opens it at its arrival time truncated to the period: with a positive
  period, the largest multiple of the period that does not exceed the arrival time.
\<close>

theorem bar_alignment:
  assumes "0 < sint (barPeriod m)"
    and "instrument x = contractID m" and "tick_of x = Some tk"
    and "currentBar m = None \<or>
         (\<exists>bar. currentBar m = Some bar \<and> sint (barPeriod m) \<le> arrival tk - Time bar)"
  shows "\<exists>bar'. currentBar (fst (dispatch x m)) = Some bar'
           \<and> Time bar' = Truncate (arrival tk) (barPeriod m)
           \<and> sint (barPeriod m) dvd Time bar' \<and> Time bar' \<le> arrival tk
           \<and> (\<forall>k. sint (barPeriod m) dvd k \<and> k \<le> arrival tk \<longrightarrow> k \<le> Time bar')"
proof -
  have "\<exists>bar'. currentBar (fst (dispatch x m)) = Some bar'
           \<and> Time bar' = Truncate (arrival tk) (barPeriod m)"
  proof (cases "currentBar m")
    case None
    then show ?thesis using assms(2,3) by (simp add: dispatch_open initializeNewBar_def)
  next
    case (Some bar)
    then have "sint (barPeriod m) \<le> Sub (arrival tk) (Time bar)"
      using assms(4) Sub_ge by auto
    then show ?thesis using Some assms(2,3) by (simp add: dispatch_roll)
  qed
  then show ?thesis using Truncate_greatest[OF assms(1), of "arrival tk"] by auto
qed

theorem bar_alignment_witness:
  "0 < sint (barPeriod (NewMarketDataManager ''X'' 1 (Some ())))
   \<and> tick_of (GatewayQuote ''X'' (quote 100 100.1) 36037000000000) = Some (QuoteTick 100 100.1 36037000000000)
   \<and> (\<exists>bar'. currentBar (fst (dispatch (GatewayQuote ''X'' (quote 100 100.1) 36037000000000)
                 (NewMarketDataManager ''X'' 1 (Some ())))) = Some bar'
          \<and> Time bar' = 36000000000000)"
  using bar_alignment [of "NewMarketDataManager ''X'' 1 (Some ())"
      "GatewayQuote ''X'' (quote 100 100.1) 36037000000000" "QuoteTick 100 100.1 36037000000000"]
  by (auto simp: NewMarketDataManager_def quote_def Truncate_def)

text \<open>
  C4. A well-formed tick for the instrument that arrives at least one period after the
  start of the current bar makes the aggregator call the callback exactly once, with the
  current bar updated by this tick (extremes, close, and volume for a trade), and opens
  one new bar with all four prices equal to the tick's price, volume 0 and the start at
  the arrival time truncated to the period.
\<close>

theorem roll_over:
  assumes "instrument x = contractID m" and "tick_of x = Some tk"
    and "currentBar m = Some bar" and "callback m = Some cb"
    and "sint (barPeriod m) \<le> arrival tk - Time bar"
  shows "dispatch x m =
     ((touch tk m)\<lparr>currentBar := Some \<lparr>Time = Truncate (arrival tk) (barPeriod m),
         Open = price_of tk, High = price_of tk, Low = price_of tk, Close = price_of tk, Vol = 0\<rparr>\<rparr>,
      [Callback cb (bar\<lparr>High := max (High bar) (price_of tk), Low := min (Low bar) (price_of tk),
                         Close := price_of tk, Vol := Vol bar + volume_of tk\<rparr>)])"
  using assms Sub_ge[of "barPeriod m" "arrival tk" "Time bar"]
  by (simp add: dispatch_roll apply_tick_def)


theorem roll_over_witness:
  "tick_of (GatewayQuote ''X'' (quote 98.9 99.1) 36070000000000) = Some (QuoteTick 98.9 99.1 36070000000000)
   \<and> sint (60000000000 :: Duration) \<le> arrival (QuoteTick 98.9 99.1 36070000000000) - 36000000000000
   \<and> dispatch (GatewayQuote ''X'' (quote 98.9 99.1) 36070000000000)
       \<lparr>currentBar = Some \<lparr>Time = 36000000000000, Open = 100.05, High = 101, Low = 100.05,
                             Close = 101, Vol = 5\<rparr>,
        lastTradeTime = 36030000000000, barPeriod = 60000000000, callback = Some (),
        contractID = ''X''\<rparr>
     = (\<lparr>currentBar = Some \<lparr>Time = 36060000000000, Open = 99, High = 99, Low = 99,
                             Close = 99, Vol = 0\<rparr>,
        lastTradeTime = 36030000000000, barPeriod = 60000000000, callback = Some (),
        contractID = ''X''\<rparr>,
        [Callback () \<lparr>Time = 36000000000000, Open = 100.05, High = 101, Low = 99,
                             Close = 99, Vol = 5\<rparr>])"
  using roll_over [of "GatewayQuote ''X'' (quote 98.9 99.1) 36070000000000"
      "\<lparr>currentBar = Some \<lparr>Time = 36000000000000, Open = 100.05, High = 101, Low = 100.05,
                             Close = 101, Vol = 5\<rparr>,
        lastTradeTime = 36030000000000, barPeriod = 60000000000, callback = Some (),
        contractID = ''X''\<rparr>"
      "QuoteTick 98.9 99.1 36070000000000"
      "\<lparr>Time = 36000000000000, Open = 100.05, High = 101, Low = 100.05, Close = 101, Vol = 5\<rparr>" "()"]
  by (simp add: quote_def Truncate_def)

lemma deliver_ignored:
  "\<forall>x \<in> set xs. instrument x \<noteq> contractID m \<or> tick_of x = None \<Longrightarrow>
   fst (deliver xs m) = m \<and> (\<forall>cb b. Callback cb b \<notin> set (snd (deliver xs m)))"
proof (induction xs)
  case Nil
  then show ?case by simp
next
  case (Cons x xs)
  have "fst (dispatch x m) = m \<and> (\<forall>cb b. Callback cb b \<notin> set (snd (dispatch x m)))"
    using Cons.prems dispatch_ignored[of x m] dispatch_malformed[of x m] by auto
  then show ?case using Cons by (auto split: prod.splits)
qed

lemma emission_cases:
  assumes "Callback cb b \<in> set (snd (dispatch x m))"
  shows "instrument x = contractID m \<and> callback m = Some cb \<and>
      (\<exists>tk bar. tick_of x = Some tk \<and> currentBar m = Some bar \<and>
          sint (barPeriod m) \<le> Sub (arrival tk) (Time bar) \<and> b = apply_tick tk bar \<and>
          snd (dispatch x m) = [Callback cb b])"
proof -
  have i: "instrument x = contractID m" using assms dispatch_ignored[of x m] by (cases "instrument x = contractID m") auto
  obtain tk where tk: "tick_of x = Some tk" using assms dispatch_malformed[of x m] by (cases "tick_of x") auto
  obtain bar where bar: "currentBar m = Some bar"
    using assms dispatch_open[OF i tk] by (cases "currentBar m") auto
  have r: "sint (barPeriod m) \<le> Sub (arrival tk) (Time bar)"
    using assms dispatch_stay[OF i tk bar] by (cases "sint (barPeriod m) \<le> Sub (arrival tk) (Time bar)") auto
  show ?thesis using assms i tk bar r dispatch_roll[OF i tk bar r]
    by (cases "callback m") auto
qed

text \<open>
  C10. The callback is called only while a well-formed quote or trade for the aggregator's
  instrument is processed, and then once, with the bar that was current, updated. A tick
  that finds no current bar, such as the first tick after construction, opens a bar and
  emits nothing. Messages for other instruments, depth messages and malformed payloads
  emit nothing and leave the aggregator as it is, whatever their arrival times: a bar
  whose period has elapsed stays unemitted until a tick for the instrument arrives.
\<close>

theorem emission_only_on_roll_over:
  "(Callback cb b \<in> set (snd (dispatch x m)) \<longrightarrow>
      instrument x = contractID m \<and> callback m = Some cb \<and>
      (\<exists>tk bar. tick_of x = Some tk \<and> currentBar m = Some bar \<and>
          sint (barPeriod m) \<le> Sub (arrival tk) (Time bar) \<and> b = apply_tick tk bar \<and>
          snd (dispatch x m) = [Callback cb b]))
   \<and> (currentBar m = None \<longrightarrow> (\<forall>cb' b'. Callback cb' b' \<notin> set (snd (dispatch x m))))
   \<and> ((\<forall>y \<in> set xs. instrument y \<noteq> contractID m \<or> tick_of y = None) \<longrightarrow>
        fst (deliver xs m) = m \<and> (\<forall>cb' b'. Callback cb' b' \<notin> set (snd (deliver xs m))))"
proof -
  have "currentBar m = None \<Longrightarrow> Callback cb' b' \<notin> set (snd (dispatch x m))" for cb' b'
    using emission_cases[of cb' b' x m] by auto
  then show ?thesis using emission_cases[of cb b x m] deliver_ignored[of xs m] by blast
qed


theorem emission_only_on_roll_over_witness:
  "Callback () \<lparr>Time = 36000000000000, Open = 100.05, High = 101, Low = 99, Close = 99, Vol = 5\<rparr>
     \<in> set (snd (dispatch (GatewayQuote ''X'' (quote 98.9 99.1) 36070000000000)
         \<lparr>currentBar = Some \<lparr>Time = 36000000000000, Open = 100.05, High = 101, Low = 100.05,
                               Close = 101, Vol = 5\<rparr>,
          lastTradeTime = 36030000000000, barPeriod = 60000000000, callback = Some (),
          contractID = ''X''\<rparr>))
   \<and> currentBar (NewMarketDataManager ''X'' 1 (Some ())) = None
   \<and> snd (dispatch (GatewayTrade ''X'' (trade 101 5) 36030000000000)
            (NewMarketDataManager ''X'' 1 (Some ()))) = []
   \<and> tick_of (GatewayDepth ''X'' Map.empty) = None
   \<and> instrument (GatewayQuote ''Y'' (quote 1 2) 99999999999999)
        \<noteq> contractID (NewMarketDataManager ''X'' 1 (Some ()))
   \<and> tick_of (GatewayQuote ''X'' Map.empty 99999999999999) = None
   \<and> fst (deliver [GatewayDepth ''X'' Map.empty, GatewayQuote ''Y'' (quote 1 2) 99999999999999,
                    GatewayQuote ''X'' Map.empty 99999999999999]
            (NewMarketDataManager ''X'' 1 (Some ()))) = NewMarketDataManager ''X'' 1 (Some ())"
  using emission_only_on_roll_over [of "()"
      "\<lparr>Time = 36000000000000, Open = 100.05, High = 101, Low = 99, Close = 99, Vol = 5\<rparr>"
      "GatewayQuote ''X'' (quote 98.9 99.1) 36070000000000"
      "\<lparr>currentBar = Some \<lparr>Time = 36000000000000, Open = 100.05, High = 101, Low = 100.05,
                               Close = 101, Vol = 5\<rparr>,
          lastTradeTime = 36030000000000, barPeriod = 60000000000, callback = Some (),
          contractID = ''X''\<rparr>" "[]"]
    emission_only_on_roll_over [of "()"
      "\<lparr>Time = 36000000000000, Open = 100.05, High = 101, Low = 99, Close = 99, Vol = 5\<rparr>"
      "GatewayTrade ''X'' (trade 101 5) 36030000000000"
      "NewMarketDataManager ''X'' 1 (Some ())"
      "[GatewayDepth ''X'' Map.empty, GatewayQuote ''Y'' (quote 1 2) 99999999999999,
        GatewayQuote ''X'' Map.empty 99999999999999]"]
  by (simp add: NewMarketDataManager_def OnQuote_def OnTrade_def OnDepth_def quote_def trade_def
      assert_float64_def updatePrice_def rollOver_def initializeNewBar_def closeCurrentBar_def
      Sub_def maxDuration_def minDuration_def Let_def)

section \<open>One bar\<close>

lemma apply_tick_fields [simp]:
  "Open (apply_tick tk bar) = Open bar"
  "High (apply_tick tk bar) = max (High bar) (price_of tk)"
  "Low (apply_tick tk bar) = min (Low bar) (price_of tk)"
  "Close (apply_tick tk bar) = price_of tk"
  "Vol (apply_tick tk bar) = Vol bar + volume_of tk"
  by (simp_all add: apply_tick_def)

lemma touch_commute [simp]:
  "touch tk (m\<lparr>currentBar := b\<rparr>) = (touch tk m)\<lparr>currentBar := b\<rparr>"
  by (cases tk) simp_all

lemma touch_quote: "is_quote tk \<Longrightarrow> touch tk m = m"
  by (cases tk) simp_all

lemma foldl_touch_currentBar:
  "foldl (\<lambda>m tk. touch tk m) (m\<lparr>currentBar := b\<rparr>) ticks =
   (foldl (\<lambda>m tk. touch tk m) m ticks)\<lparr>currentBar := b\<rparr>"
  by (induction ticks arbitrary: m) simp_all

lemma foldl_touch_quotes:
  "\<forall>tk \<in> set ticks. is_quote tk \<Longrightarrow> foldl (\<lambda>m tk. touch tk m) m ticks = m"
  by (induction ticks arbitrary: m) (simp_all add: touch_quote)

text \<open>Ticks that keep the bar open.\<close>

lemma deliver_stay:
  assumes "0 < sint (barPeriod m)" and "currentBar m = Some bar"
    and "\<forall>x \<in> set xs. instrument x = contractID m"
    and "map tick_of xs = map Some ticks"
    and "\<forall>tk \<in> set ticks. arrival tk - Time bar < sint (barPeriod m)"
  shows "deliver xs m =
     ((foldl (\<lambda>m tk. touch tk m) m ticks)\<lparr>currentBar := Some (foldl (\<lambda>b tk. apply_tick tk b) bar ticks)\<rparr>, [])"
  using assms
proof (induction xs arbitrary: m bar ticks)
  case Nil
  then show ?case by simp
next
  case (Cons x xs)
  from Cons.prems(4) obtain tk rest where t: "ticks = tk # rest" "tick_of x = Some tk"
    "map tick_of xs = map Some rest" by (cases ticks) auto
  let ?m1 = "(touch tk m)\<lparr>currentBar := Some (apply_tick tk bar)\<rparr>"
  have i: "instrument x = contractID m" using Cons.prems(3) by simp
  have "Sub (arrival tk) (Time bar) < sint (barPeriod m)"
    using Cons.prems(1,5) t(1) Sub_less by simp
  then have d: "dispatch x m = (?m1, [])"
    using dispatch_stay[OF i t(2) Cons.prems(2)] by simp
  have "deliver xs ?m1 =
     ((foldl (\<lambda>m tk. touch tk m) ?m1 rest)\<lparr>currentBar := Some (foldl (\<lambda>b tk. apply_tick tk b) (apply_tick tk bar) rest)\<rparr>, [])"
    using Cons.IH[of ?m1 "apply_tick tk bar" rest] Cons.prems t by simp
  then show ?case using d t(1) by (simp add: foldl_touch_currentBar)
qed

lemma Max_insert_max:
  "finite S \<Longrightarrow> Max (insert (max h p) S) = Max (insert (h::real) (insert p S))"
  by (cases "S = {}") (simp_all add: max.assoc)

lemma Min_insert_min:
  "finite S \<Longrightarrow> Min (insert (min h p) S) = Min (insert (h::real) (insert p S))"
  by (cases "S = {}") (simp_all add: min.assoc)

lemma foldl_apply_tick_Time [simp]:
  "Time (foldl (\<lambda>b tk. apply_tick tk b) bar ticks) = Time bar"
  by (induction ticks arbitrary: bar) simp_all

lemma foldl_apply_tick_Open [simp]:
  "Open (foldl (\<lambda>b tk. apply_tick tk b) bar ticks) = Open bar"
  by (induction ticks arbitrary: bar) simp_all

lemma foldl_apply_tick_High:
  "High (foldl (\<lambda>b tk. apply_tick tk b) bar ticks) = Max (insert (High bar) (price_of ` set ticks))"
  by (induction ticks arbitrary: bar) (simp_all add: Max_insert_max)

lemma foldl_apply_tick_Low:
  "Low (foldl (\<lambda>b tk. apply_tick tk b) bar ticks) = Min (insert (Low bar) (price_of ` set ticks))"
  by (induction ticks arbitrary: bar) (simp_all add: Min_insert_min)

lemma foldl_apply_tick_Close:
  "Close (foldl (\<lambda>b tk. apply_tick tk b) bar ticks) =
     (if ticks = [] then Close bar else price_of (last ticks))"
  by (induction ticks arbitrary: bar) simp_all

lemma foldl_apply_tick_Vol:
  "Vol (foldl (\<lambda>b tk. apply_tick tk b) bar ticks) = Vol bar + sum_list (map volume_of ticks)"
  by (induction ticks arbitrary: bar) (simp_all add: add.assoc)

lemma dispatch_opens:
  assumes "instrument x = contractID m" and "tick_of x = Some tk"
    and "currentBar m = None \<or>
         (\<exists>bar. currentBar m = Some bar \<and> sint (barPeriod m) \<le> arrival tk - Time bar)"
  shows "currentBar (fst (dispatch x m)) =
           Some \<lparr>Time = Truncate (arrival tk) (barPeriod m), Open = price_of tk,
                 High = price_of tk, Low = price_of tk, Close = price_of tk, Vol = 0\<rparr>
         \<and> barPeriod (fst (dispatch x m)) = barPeriod m
         \<and> contractID (fst (dispatch x m)) = contractID m"
proof (cases "currentBar m")
  case None
  then show ?thesis using assms(1,2) by (simp add: dispatch_open initializeNewBar_def)
next
  case (Some bar)
  then have "sint (barPeriod m) \<le> Sub (arrival tk) (Time bar)"
    using assms(3) Sub_ge by auto
  then show ?thesis using Some assms(1,2) by (simp add: dispatch_roll)
qed

text \<open>A bar from the tick that opens it to the last tick that keeps it open.\<close>

lemma one_bar:
  assumes "0 < sint (barPeriod m)"
    and "\<forall>x \<in> set (x1 # xs). instrument x = contractID m"
    and "map tick_of (x1 # xs) = map Some (tk1 # rest)"
    and "currentBar m = None \<or>
         (\<exists>bar. currentBar m = Some bar \<and> sint (barPeriod m) \<le> arrival tk1 - Time bar)"
    and "\<forall>tk \<in> set rest. arrival tk - Truncate (arrival tk1) (barPeriod m) < sint (barPeriod m)"
  shows "currentBar (fst (deliver (x1 # xs) m)) =
     Some (foldl (\<lambda>b tk. apply_tick tk b)
        \<lparr>Time = Truncate (arrival tk1) (barPeriod m), Open = price_of tk1,
          High = price_of tk1, Low = price_of tk1, Close = price_of tk1, Vol = 0\<rparr> rest)"
proof -
  let ?m1 = "fst (dispatch x1 m)"
  let ?b0 = "\<lparr>Time = Truncate (arrival tk1) (barPeriod m), Open = price_of tk1,
          High = price_of tk1, Low = price_of tk1, Close = price_of tk1, Vol = 0\<rparr>"
  have o: "currentBar ?m1 = Some ?b0" "barPeriod ?m1 = barPeriod m" "contractID ?m1 = contractID m"
    using dispatch_opens[of x1 m tk1] assms(2,3,4) by simp_all
  have "deliver xs ?m1 =
     ((foldl (\<lambda>m tk. touch tk m) ?m1 rest)\<lparr>currentBar := Some (foldl (\<lambda>b tk. apply_tick tk b) ?b0 rest)\<rparr>, [])"
    using deliver_stay[of ?m1 ?b0 xs rest] o assms by simp
  then show ?thesis by (cases "dispatch x1 m") auto
qed

text \<open>
  C3. Quote ticks for the instrument, the first of which opens a bar and the others of
  which arrive less than one period after the start of that bar: the bar then has the
  first mid-price \<open>(bid + ask) / 2\<close> as open, the last one as close, the largest as high
  and the smallest as low, and volume 0.
\<close>

theorem quote_bar_ohlc:
  assumes "0 < sint (barPeriod m)"
    and "\<forall>x \<in> set (x1 # xs). instrument x = contractID m"
    and "map tick_of (x1 # xs) = map Some (tk1 # rest)"
    and "\<forall>tk \<in> set (tk1 # rest). is_quote tk"
    and "currentBar m = None \<or>
         (\<exists>bar. currentBar m = Some bar \<and> sint (barPeriod m) \<le> arrival tk1 - Time bar)"
    and "\<forall>tk \<in> set rest. arrival tk - Truncate (arrival tk1) (barPeriod m) < sint (barPeriod m)"
  shows "currentBar (fst (deliver (x1 # xs) m)) =
     Some \<lparr>Time = Truncate (arrival tk1) (barPeriod m),
           Open = price_of tk1,
           High = Max (price_of ` set (tk1 # rest)),
           Low = Min (price_of ` set (tk1 # rest)),
           Close = price_of (last (tk1 # rest)),
           Vol = 0\<rparr>"
proof -
  have v: "sum_list (map volume_of rest) = 0" using assms(4)
  proof (induction rest)
    case Nil then show ?case by simp
  next
    case (Cons tk rest) then show ?case by (cases tk) simp_all
  qed
  have "foldl (\<lambda>b tk. apply_tick tk b)
        \<lparr>Time = Truncate (arrival tk1) (barPeriod m), Open = price_of tk1,
          High = price_of tk1, Low = price_of tk1, Close = price_of tk1, Vol = 0\<rparr> rest =
      \<lparr>Time = Truncate (arrival tk1) (barPeriod m),
           Open = price_of tk1,
           High = Max (price_of ` set (tk1 # rest)),
           Low = Min (price_of ` set (tk1 # rest)),
           Close = price_of (last (tk1 # rest)),
           Vol = 0\<rparr>"
    by (rule HistoryBar.equality)
       (simp_all add: foldl_apply_tick_High foldl_apply_tick_Low foldl_apply_tick_Close
          foldl_apply_tick_Vol v)
  then show ?thesis using one_bar[OF assms(1,2,3,5,6)] by simp
qed

theorem quote_bar_ohlc_witness:
  "0 < sint (barPeriod (NewMarketDataManager ''X'' 1 (Some ())))
   \<and> currentBar (NewMarketDataManager ''X'' 1 (Some ())) = None
   \<and> currentBar (fst (deliver
        [GatewayQuote ''X'' (quote 100 100.1) 36005000000000,
         GatewayQuote ''X'' (quote 101 102) 36030000000000,
         GatewayQuote ''X'' (quote 99 99.5) 36050000000000]
        (NewMarketDataManager ''X'' 1 (Some ())))) =
      Some \<lparr>Time = 36000000000000, Open = 100.05, High = 101.5, Low = 99.25,
            Close = 99.25, Vol = 0\<rparr>"
  using quote_bar_ohlc [of "NewMarketDataManager ''X'' 1 (Some ())"
      "GatewayQuote ''X'' (quote 100 100.1) 36005000000000"
      "[GatewayQuote ''X'' (quote 101 102) 36030000000000,
        GatewayQuote ''X'' (quote 99 99.5) 36050000000000]"
      "QuoteTick 100 100.1 36005000000000"
      "[QuoteTick 101 102 36030000000000, QuoteTick 99 99.5 36050000000000]"]
  by (simp add: NewMarketDataManager_def quote_def Truncate_def)

section \<open>Volume\<close>

lemma volume_of_nonneg: "nonneg_size tk \<Longrightarrow> volume_of tk = word_of_int (floor_size tk)"
  by (cases tk) (simp_all add: int_of_float64_def)

lemma floor_size_nonneg: "nonneg_size tk \<Longrightarrow> 0 \<le> floor_size tk"
  by (cases tk) simp_all

lemma sum_volume_of:
  "\<forall>tk \<in> set ts. nonneg_size tk \<Longrightarrow>
   sum_list (map volume_of ts) = word_of_int (sum_list (map floor_size ts))
   \<and> 0 \<le> sum_list (map floor_size ts)"
  by (induction ts) (simp_all add: volume_of_nonneg floor_size_nonneg)

lemma sint_volume:
  assumes "0 \<le> k" "k < 2 ^ 63"
  shows "sint (word_of_int k :: go_int) = k"
  using assms by (simp add: sint_sbintrunc' signed_take_bit_int_eq_self)

text \<open>
  C2, as the code has it. The volume of a bar is the sum, in Go's \<open>int\<close>, of \<open>int(size)\<close>
  over the trades applied to the bar after the tick that opened it; the opening tick, quote
  or trade, contributes nothing, and neither does a quote. For non-negative sizes whose
  rounded-down sum fits an \<open>int\<close>, this is the sum of \<open>floor(size)\<close> over those trades.
\<close>

theorem volume_sum:
  assumes "0 < sint (barPeriod m)"
    and "\<forall>x \<in> set (x1 # xs). instrument x = contractID m"
    and "map tick_of (x1 # xs) = map Some (tk1 # rest)"
    and "currentBar m = None \<or>
         (\<exists>bar. currentBar m = Some bar \<and> sint (barPeriod m) \<le> arrival tk1 - Time bar)"
    and "\<forall>tk \<in> set rest. arrival tk - Truncate (arrival tk1) (barPeriod m) < sint (barPeriod m)"
  shows "\<exists>bar. currentBar (fst (deliver (x1 # xs) m)) = Some bar
      \<and> Vol bar = sum_list (map volume_of rest)
      \<and> ((\<forall>tk \<in> set rest. nonneg_size tk) \<and> sum_list (map floor_size rest) < 2 ^ 63
           \<longrightarrow> sint (Vol bar) = sum_list (map floor_size rest))"
  unfolding one_bar[OF assms]
  using sum_volume_of[of rest] sint_volume[of "sum_list (map floor_size rest)"]
  by (auto simp: foldl_apply_tick_Vol)

theorem volume_sum_witness:
  "0 < sint (barPeriod (NewMarketDataManager ''X'' 1 (Some ())))
   \<and> currentBar (NewMarketDataManager ''X'' 1 (Some ())) = None
   \<and> sum_list (map floor_size [TradeTick 101 5 36030000000000, TradeTick 100 2.5 36040000000000]) = 7
   \<and> (\<exists>bar. currentBar (fst (deliver
        [GatewayTrade ''X'' (trade 100 3) 36005000000000,
         GatewayTrade ''X'' (trade 101 5) 36030000000000,
         GatewayTrade ''X'' (trade 100 2.5) 36040000000000]
        (NewMarketDataManager ''X'' 1 (Some ())))) = Some bar \<and> Vol bar = 7 \<and> sint (Vol bar) = 7)"
  using volume_sum [of "NewMarketDataManager ''X'' 1 (Some ())"
      "GatewayTrade ''X'' (trade 100 3) 36005000000000"
      "[GatewayTrade ''X'' (trade 101 5) 36030000000000,
        GatewayTrade ''X'' (trade 100 2.5) 36040000000000]"
      "TradeTick 100 3 36005000000000"
      "[TradeTick 101 5 36030000000000, TradeTick 100 2.5 36040000000000]"]
  by (simp add: NewMarketDataManager_def trade_def Truncate_def int_of_float64_def)

text \<open>A trade that opens a bar: its size 5 is not in the volume of the bar.\<close>

theorem opening_trade_volume_dropped:
  "currentBar (fst (dispatch (GatewayTrade ''X'' (trade 101 5) 36030000000000)
      (NewMarketDataManager ''X'' 1 (Some ())))) =
     Some \<lparr>Time = 36000000000000, Open = 101, High = 101, Low = 101, Close = 101, Vol = 0\<rparr>
   \<and> tick_of (GatewayTrade ''X'' (trade 101 5) 36030000000000) = Some (TradeTick 101 5 36030000000000)
   \<and> floor_size (TradeTick 101 5 36030000000000) = 5"
  by (simp add: NewMarketDataManager_def OnTrade_def trade_def assert_float64_def
      initializeNewBar_def Truncate_def)

section \<open>Invariants of a bar\<close>

lemma ohlc_ok_apply_tick: "ohlc_ok bar \<Longrightarrow> ohlc_ok (apply_tick tk bar)"
  by (auto simp: ohlc_ok_def)

lemma ohlc_ok_dispatch:
  assumes "\<forall>bar. currentBar m = Some bar \<longrightarrow> ohlc_ok bar"
  shows "(\<forall>bar. currentBar (fst (dispatch x m)) = Some bar \<longrightarrow> ohlc_ok bar)
       \<and> (\<forall>cb b. Callback cb b \<in> set (snd (dispatch x m)) \<longrightarrow> ohlc_ok b)"
proof (cases "instrument x = contractID m")
  case False
  then show ?thesis using assms by (simp add: dispatch_ignored)
next
  case i: True
  show ?thesis
  proof (cases "tick_of x")
    case None
    then show ?thesis using assms dispatch_malformed[of x m] by simp
  next
    case (Some tk)
    show ?thesis
    proof (cases "currentBar m")
      case None
      then show ?thesis using dispatch_open[OF i Some]
        by (simp add: initializeNewBar_def ohlc_ok_def)
    next
      case bar: (Some bar)
      then have ok: "ohlc_ok (apply_tick tk bar)" using assms ohlc_ok_apply_tick by simp
      show ?thesis
      proof (cases "sint (barPeriod m) \<le> Sub (arrival tk) (Time bar)")
        case True
        then show ?thesis using dispatch_roll[OF i Some bar True] ok
          by (auto simp: ohlc_ok_def split: option.splits)
      next
        case False
        then show ?thesis using dispatch_stay[OF i Some bar] ok by simp
      qed
    qed
  qed
qed

lemma ohlc_ok_deliver:
  "\<forall>bar. currentBar m = Some bar \<longrightarrow> ohlc_ok bar \<Longrightarrow>
   (\<forall>bar. currentBar (fst (deliver xs m)) = Some bar \<longrightarrow> ohlc_ok bar)
   \<and> (\<forall>cb b. Callback cb b \<in> set (snd (deliver xs m)) \<longrightarrow> ohlc_ok b)"
proof (induction xs arbitrary: m)
  case Nil
  then show ?case by simp
next
  case (Cons x xs)
  obtain m1 out1 where d: "dispatch x m = (m1, out1)" by (cases "dispatch x m") auto
  have s: "(\<forall>bar. currentBar m1 = Some bar \<longrightarrow> ohlc_ok bar)
       \<and> (\<forall>cb b. Callback cb b \<in> set out1 \<longrightarrow> ohlc_ok b)"
    using ohlc_ok_dispatch[OF Cons.prems, of x] d by simp
  then have "(\<forall>bar. currentBar (fst (deliver xs m1)) = Some bar \<longrightarrow> ohlc_ok bar)
   \<and> (\<forall>cb b. Callback cb b \<in> set (snd (deliver xs m1)) \<longrightarrow> ohlc_ok b)"
    using Cons.IH[of m1] by blast
  then show ?case using d s by (auto split: prod.splits)
qed

lemma sum_list_take_mono:
  assumes "\<forall>x \<in> set xs. (0::int) \<le> f x" and "n \<le> k"
  shows "sum_list (map f (take n xs)) \<le> sum_list (map f (take k xs))"
proof -
  have "take k xs = take n xs @ take (k - n) (drop n xs)"
    using assms(2) by (metis le_add_diff_inverse take_add)
  moreover have "0 \<le> sum_list (map f (take (k - n) (drop n xs)))"
  proof -
    have "set (take (k - n) (drop n xs)) \<subseteq> set xs"
      by (meson set_take_subset set_drop_subset subset_trans)
    then show ?thesis using assms(1) by (intro sum_list_nonneg) auto
  qed
  ultimately show ?thesis by simp
qed

text \<open>The volume of a bar that stays open, after the first \<open>n\<close> of the ticks.\<close>

lemma volume_after:
  assumes "0 < sint (barPeriod m)" and "currentBar m = Some bar0"
    and "\<forall>x \<in> set xs. instrument x = contractID m"
    and "map tick_of xs = map Some ticks"
    and "\<forall>tk \<in> set ticks. arrival tk - Time bar0 < sint (barPeriod m) \<and> nonneg_size tk"
    and "0 \<le> sint (Vol bar0)"
    and "sint (Vol bar0) + sum_list (map floor_size ticks) < 2 ^ 63"
  shows "\<exists>b. currentBar (fst (deliver (take n xs) m)) = Some b \<and>
             sint (Vol b) = sint (Vol bar0) + sum_list (map floor_size (take n ticks))"
proof -
  let ?ts = "take n ticks"
  have nn: "\<forall>tk \<in> set ticks. 0 \<le> floor_size tk" using assms(5) floor_size_nonneg by blast
  have m: "map tick_of (take n xs) = map Some ?ts" using assms(4) by (simp add: take_map [symmetric])
  have "deliver (take n xs) m =
     ((foldl (\<lambda>m tk. touch tk m) m ?ts)\<lparr>currentBar := Some (foldl (\<lambda>b tk. apply_tick tk b) bar0 ?ts)\<rparr>, [])"
    using deliver_stay[OF assms(1,2) _ m] assms(3,5) by (auto dest: in_set_takeD)
  then have c: "currentBar (fst (deliver (take n xs) m)) = Some (foldl (\<lambda>b tk. apply_tick tk b) bar0 ?ts)"
    by simp
  have s: "sum_list (map volume_of ?ts) = word_of_int (sum_list (map floor_size ?ts))"
    and s0: "0 \<le> sum_list (map floor_size ?ts)"
    using sum_volume_of[of ?ts] assms(5) by (auto dest: in_set_takeD)
  have le: "sum_list (map floor_size ?ts) \<le> sum_list (map floor_size ticks)"
    using sum_list_take_mono[OF nn, of n "length ticks"] by (cases "n \<le> length ticks") simp_all
  have "Vol bar0 + sum_list (map volume_of ?ts) =
        word_of_int (sint (Vol bar0) + sum_list (map floor_size ?ts))"
    using s by simp
  then have "sint (Vol bar0 + sum_list (map volume_of ?ts)) =
        sint (Vol bar0) + sum_list (map floor_size ?ts)"
    using sint_volume[of "sint (Vol bar0) + sum_list (map floor_size ?ts)"] s0 le assms(6,7)
    by simp
  then show ?thesis using c by (simp add: foldl_apply_tick_Vol)
qed

text \<open>
  C7, as the code has it. From an aggregator whose current bar, if any, satisfies
  \<open>low \<le> min(open, close) \<le> max(open, close) \<le> high\<close>, this holds for the current bar
  after every sequence of messages, and for every emitted bar. While a bar stays open and
  the sizes of the trades applied to it are non-negative with a sum that fits an \<open>int\<close>,
  its volume is non-negative and does not decrease.
\<close>

theorem bar_invariants:
  assumes "\<forall>bar. currentBar m = Some bar \<longrightarrow> ohlc_ok bar"
  shows "(\<forall>bar. currentBar (fst (deliver xs m)) = Some bar \<longrightarrow> ohlc_ok bar)
     \<and> (\<forall>cb b. Callback cb b \<in> set (snd (deliver xs m)) \<longrightarrow> ohlc_ok b)
     \<and> (0 < sint (barPeriod m) \<and> currentBar m = Some bar0 \<and> 0 \<le> sint (Vol bar0)
         \<and> (\<forall>x \<in> set xs. instrument x = contractID m) \<and> map tick_of xs = map Some ticks
         \<and> (\<forall>tk \<in> set ticks. arrival tk - Time bar0 < sint (barPeriod m) \<and> nonneg_size tk)
         \<and> sint (Vol bar0) + sum_list (map floor_size ticks) < 2 ^ 63
        \<longrightarrow> (\<forall>n k. n \<le> k \<longrightarrow>
              (\<exists>b b'. currentBar (fst (deliver (take n xs) m)) = Some b
                    \<and> currentBar (fst (deliver (take k xs) m)) = Some b'
                    \<and> 0 \<le> sint (Vol b) \<and> sint (Vol b) \<le> sint (Vol b'))))"
proof -
  have vol: "\<exists>b b'. currentBar (fst (deliver (take n xs) m)) = Some b
                    \<and> currentBar (fst (deliver (take k xs) m)) = Some b'
                    \<and> 0 \<le> sint (Vol b) \<and> sint (Vol b) \<le> sint (Vol b')"
    if h: "0 < sint (barPeriod m)" "currentBar m = Some bar0" "0 \<le> sint (Vol bar0)"
      "\<forall>x \<in> set xs. instrument x = contractID m" "map tick_of xs = map Some ticks"
      "\<forall>tk \<in> set ticks. arrival tk - Time bar0 < sint (barPeriod m) \<and> nonneg_size tk"
      "sint (Vol bar0) + sum_list (map floor_size ticks) < 2 ^ 63"
      and nk: "n \<le> k" for n k
  proof -
    have nn: "\<forall>tk \<in> set ticks. 0 \<le> floor_size tk" using h(6) floor_size_nonneg by blast
    obtain b where b: "currentBar (fst (deliver (take n xs) m)) = Some b"
        "sint (Vol b) = sint (Vol bar0) + sum_list (map floor_size (take n ticks))"
      using volume_after[OF h(1,2,4,5,6,3,7), of n] by blast
    obtain b' where b': "currentBar (fst (deliver (take k xs) m)) = Some b'"
        "sint (Vol b') = sint (Vol bar0) + sum_list (map floor_size (take k ticks))"
      using volume_after[OF h(1,2,4,5,6,3,7), of k] by blast
    have "0 \<le> sum_list (map floor_size (take n ticks))"
      using nn set_take_subset[of n ticks] by (intro sum_list_nonneg) auto
    moreover have "sum_list (map floor_size (take n ticks)) \<le> sum_list (map floor_size (take k ticks))"
      using sum_list_take_mono[OF nn nk] .
    ultimately show ?thesis using b b' h(3) by simp
  qed
  show ?thesis using ohlc_ok_deliver[OF assms, of xs] vol by blast
qed

theorem bar_invariants_witness:
  "ohlc_ok \<lparr>Time = 36000000000000, Open = 100, High = 100, Low = 100, Close = 100, Vol = 0\<rparr>
   \<and> sint (0 :: go_int)
       + sum_list (map floor_size [TradeTick 101 5 36030000000000, QuoteTick 99 99.5 36040000000000])
       < 2 ^ 63
   \<and> (\<exists>b b'. currentBar (fst (deliver (take 1
          [GatewayTrade ''X'' (trade 101 5) 36030000000000,
           GatewayQuote ''X'' (quote 99 99.5) 36040000000000])
        \<lparr>currentBar = Some \<lparr>Time = 36000000000000, Open = 100, High = 100, Low = 100,
                              Close = 100, Vol = 0\<rparr>,
         lastTradeTime = 0, barPeriod = 60000000000, callback = Some (), contractID = ''X''\<rparr>)) = Some b
      \<and> currentBar (fst (deliver (take 2
          [GatewayTrade ''X'' (trade 101 5) 36030000000000,
           GatewayQuote ''X'' (quote 99 99.5) 36040000000000])
        \<lparr>currentBar = Some \<lparr>Time = 36000000000000, Open = 100, High = 100, Low = 100,
                              Close = 100, Vol = 0\<rparr>,
         lastTradeTime = 0, barPeriod = 60000000000, callback = Some (), contractID = ''X''\<rparr>)) = Some b'
      \<and> ohlc_ok b' \<and> 0 \<le> sint (Vol b) \<and> sint (Vol b) \<le> sint (Vol b'))"
proof -
  let ?b0 = "\<lparr>Time = 36000000000000, Open = 100, High = 100, Low = 100, Close = 100, Vol = 0\<rparr>"
  let ?m = "\<lparr>currentBar = Some ?b0, lastTradeTime = 0, barPeriod = 60000000000,
             callback = Some (), contractID = ''X''\<rparr>"
  let ?xs = "[GatewayTrade ''X'' (trade 101 5) 36030000000000,
              GatewayQuote ''X'' (quote 99 99.5) 36040000000000]"
  let ?ticks = "[TradeTick 101 5 36030000000000, QuoteTick 99 99.5 36040000000000]"
  have ok: "ohlc_ok ?b0" by (simp add: ohlc_ok_def)
  then have inv: "\<forall>bar. currentBar ?m = Some bar \<longrightarrow> ohlc_ok bar" by simp
  note t = bar_invariants [OF inv, of ?xs ?b0 ?ticks]
  have pre: "0 < sint (barPeriod ?m) \<and> currentBar ?m = Some ?b0 \<and> 0 \<le> sint (Vol ?b0)
         \<and> (\<forall>x \<in> set ?xs. instrument x = contractID ?m) \<and> map tick_of ?xs = map Some ?ticks
         \<and> (\<forall>tk \<in> set ?ticks. arrival tk - Time ?b0 < sint (barPeriod ?m) \<and> nonneg_size tk)
         \<and> sint (Vol ?b0) + sum_list (map floor_size ?ticks) < 2 ^ 63"
    by (simp add: quote_def trade_def)
  have all: "\<forall>n k. n \<le> k \<longrightarrow>
              (\<exists>b b'. currentBar (fst (deliver (take n ?xs) ?m)) = Some b
                    \<and> currentBar (fst (deliver (take k ?xs) ?m)) = Some b'
                    \<and> 0 \<le> sint (Vol b) \<and> sint (Vol b) \<le> sint (Vol b'))"
    using t pre by blast
  have "(1::nat) \<le> 2" by simp
  with all obtain b b' where b: "currentBar (fst (deliver (take 1 ?xs) ?m)) = Some b"
      "currentBar (fst (deliver (take 2 ?xs) ?m)) = Some b'"
      "0 \<le> sint (Vol b)" "sint (Vol b) \<le> sint (Vol b')"
    by blast
  have "take 2 ?xs = ?xs" by simp
  then have ob: "ohlc_ok b'" using t b(2) by simp
  have s: "sint (0 :: go_int) + sum_list (map floor_size ?ticks) < 2 ^ 63" by simp
  have "\<exists>b b'. currentBar (fst (deliver (take 1 ?xs) ?m)) = Some b
      \<and> currentBar (fst (deliver (take 2 ?xs) ?m)) = Some b'
      \<and> ohlc_ok b' \<and> 0 \<le> sint (Vol b) \<and> sint (Vol b) \<le> sint (Vol b')"
    using ob b by blast
  then show ?thesis using ok s by (intro conjI)
qed

text \<open>A trade of size -3 on an open bar of volume 0 leaves a negative volume.\<close>

theorem negative_size_volume:
  "ohlc_ok \<lparr>Time = 36000000000000, Open = 100, High = 100, Low = 100, Close = 100, Vol = 0\<rparr>
   \<and> tick_of (GatewayTrade ''X'' (trade 101 (- 3)) 36030000000000)
        = Some (TradeTick 101 (- 3) 36030000000000)
   \<and> currentBar (fst (dispatch (GatewayTrade ''X'' (trade 101 (- 3)) 36030000000000)
       \<lparr>currentBar = Some \<lparr>Time = 36000000000000, Open = 100, High = 100, Low = 100,
                             Close = 100, Vol = 0\<rparr>,
        lastTradeTime = 0, barPeriod = 60000000000, callback = Some (), contractID = ''X''\<rparr>)) =
     Some \<lparr>Time = 36000000000000, Open = 100, High = 101, Low = 100, Close = 101, Vol = - 3\<rparr>
   \<and> sint (- 3 :: go_int) = - 3"
  by (simp add: OnTrade_def trade_def assert_float64_def updatePrice_def rollOver_def
      Sub_def maxDuration_def minDuration_def int_of_float64_def ohlc_ok_def Let_def)

end
